theory Spec2Isabelle
  imports Complex_Main "HOL-Library.Sublist" "HOL-Library.Multiset"
begin

section \<open>Data model\<close>

text \<open>
  The whale scanner is a React hook (\<open>useWhaleActivity\<close>) over a module-level store,
  and the \<open>App\<close> component that turns its results into toast notifications.

  A JavaScript \<open>number\<close> that the program receives (a field of a trade, the threshold,
  the clock) is a finite IEEE-754 double, given by its value, a rational; minus zero is not
  told apart from zero, which no operation of the program can observe. Of the arithmetic
  the program does, comparing two doubles is exact, the sign of the difference of two
  doubles is the sign of the exact difference, and adding 500 to the cursor is exact, the
  cursor being a whole number far below \<open>2^53\<close>: these are the rational operations. The
  product \<open>size * price\<close> rounds, and can overflow: it is \<open>js_mul\<close> below. Counters that
  the code only ever increments from zero are \<open>nat\<close>. The functions that render a number
  inside a template literal take the rendering as the parameter \<open>numStr\<close>, and what is
  proved about them holds for every rendering; \<open>numberToString\<close> is the one the language
  applies.
\<close>

type_synonym number = rat

section \<open>Double-precision arithmetic\<close>

text \<open>
  The result of an arithmetic operation on finite doubles: a finite double or an infinity
  (\<open>NaN\<close> does not arise from the product of two finite numbers).
\<close>

datatype js_value = Finite number | PlusInfinity | MinusInfinity

definition pow2 :: "int \<Rightarrow> rat" where
  "pow2 e = (if 0 \<le> e then 2 ^ nat e else 1 / 2 ^ nat (- e))"

text \<open>The number of binary digits of a positive integer.\<close>

function bitlen :: "int \<Rightarrow> nat" where
  "bitlen n = (if n \<le> 0 then 0 else Suc (bitlen (n div 2)))"
  by pat_completeness auto
termination
  by (relation "measure nat") auto

declare bitlen.simps [simp del]

text \<open>For \<open>a > 0\<close>, the exponent \<open>e\<close> with \<open>2^e \<le> a < 2^(e+1)\<close>.\<close>

definition floor_log2 :: "rat \<Rightarrow> int" where
  "floor_log2 a =
     (if 1 \<le> a then int (bitlen \<lfloor>a\<rfloor>) - 1
      else - int (bitlen (- \<lfloor>- (1 / a)\<rfloor> - 1)))"

text \<open>Rounding to the nearest integer, a tie going to the even one.\<close>

definition round_half_even :: "rat \<Rightarrow> int" where
  "round_half_even r =
     (if r - of_int \<lfloor>r\<rfloor> < 1 / 2 then \<lfloor>r\<rfloor>
      else if 1 / 2 < r - of_int \<lfloor>r\<rfloor> then \<lfloor>r\<rfloor> + 1
      else if even \<lfloor>r\<rfloor> then \<lfloor>r\<rfloor> else \<lfloor>r\<rfloor> + 1)"

text \<open>
  The doubles around \<open>a > 0\<close> are the multiples of \<open>2^q\<close>, where \<open>q\<close> leaves 53 binary
  digits for a normal number and is \<open>-1074\<close> for a subnormal one.
\<close>

definition ulp_exponent :: "rat \<Rightarrow> int" where
  "ulp_exponent a = max (floor_log2 a - 52) (- 1074)"

definition round_to_ulp :: "int \<Rightarrow> rat \<Rightarrow> rat" where
  "round_to_ulp q a = of_int (round_half_even (a / pow2 q)) * pow2 q"

definition with_sign :: "bool \<Rightarrow> rat \<Rightarrow> js_value" where
  "with_sign positive r =
     (if pow2 1024 \<le> r then (if positive then PlusInfinity else MinusInfinity)
      else Finite (if positive then r else - r))"

text \<open>
  A real number as a double: round to nearest, ties to even, overflow to an infinity
  (the default IEEE-754 rounding, which is the one JavaScript uses).
\<close>

definition round_double :: "rat \<Rightarrow> js_value" where
  "round_double x =
     (if x = 0 then Finite 0
      else with_sign (0 < x) (round_to_ulp (ulp_exponent \<bar>x\<bar>) \<bar>x\<bar>))"

text \<open>\<open>a * b\<close> on two finite doubles, and \<open>v < m\<close> for a result \<open>v\<close> and a finite double \<open>m\<close>.\<close>

definition js_mul :: "number \<Rightarrow> number \<Rightarrow> js_value" where
  "js_mul a b = round_double (a * b)"

definition js_less :: "js_value \<Rightarrow> number \<Rightarrow> bool" where
  "js_less v m =
     (case v of Finite r \<Rightarrow> r < m | PlusInfinity \<Rightarrow> False | MinusInfinity \<Rightarrow> True)"

section \<open>Trades and alerts\<close>

datatype Side = BUY | SELL

text \<open>
  One element of the array returned by \<open>fetchRecentTrades\<close>. The declaration lives in
  \<open>lib/api\<close>; the fields are the ones \<open>tradeToWhaleAlert\<close> reads, display name, pseudonym
  and transaction hash being the optional ones.
\<close>

record RawTrade =
  trade_proxyWallet :: string
  trade_side :: Side
  trade_size :: number
  trade_price :: number
  trade_conditionId :: string
  trade_title :: string
  trade_outcome :: string
  trade_timestamp :: number
  trade_name :: "string option"
  trade_pseudonym :: "string option"
  trade_transactionHash :: "string option"

text \<open>\<open>interface WhaleAlert\<close>; \<open>traderName: string | null\<close> is an option.\<close>

record WhaleAlert =
  alert_id :: string
  alert_trader :: string
  alert_traderName :: "string option"
  alert_side :: Side
  alert_size :: number
  alert_price :: number
  alert_value :: js_value
  alert_market :: string
  alert_outcome :: string
  alert_timestamp :: number
  alert_transactionHash :: "string option"

section \<open>The classifier\<close>

text \<open>
  \<open>s || d\<close> on strings: an absent (\<open>undefined\<close>) or empty string is falsy and yields the
  right operand.
\<close>

definition truthy :: "string option \<Rightarrow> bool" where
  "truthy s = (case s of None \<Rightarrow> False | Some v \<Rightarrow> v \<noteq> [])"

definition or_string :: "string option \<Rightarrow> string \<Rightarrow> string" where
  "or_string s d = (case s of None \<Rightarrow> d | Some v \<Rightarrow> if v \<noteq> [] then v else d)"

text \<open>
  The template literal
  \<^verbatim>\<open>`${trade.proxyWallet}-${trade.timestamp}-${trade.conditionId}-${trade.size}`\<close>.
\<close>

definition synthesizedId :: "(number \<Rightarrow> string) \<Rightarrow> RawTrade \<Rightarrow> string" where
  "synthesizedId numStr trade =
     trade_proxyWallet trade @ ''-'' @ numStr (trade_timestamp trade) @ ''-'' @
     trade_conditionId trade @ ''-'' @ numStr (trade_size trade)"

text \<open>
  \<^verbatim>\<open>
  function tradeToWhaleAlert(trade, minValue): WhaleAlert | null {
    const value = trade.size * trade.price;
    if (value < minValue) return null;
    const id = trade.transactionHash || `...`;
    return { id, trader: trade.proxyWallet, traderName: trade.name || trade.pseudonym || null,
             side: trade.side, size: trade.size, price: trade.price, value,
             market: trade.title || 'Unknown Market', outcome: trade.outcome || 'Unknown',
             timestamp: trade.timestamp, transactionHash: trade.transactionHash };
  }
  \<close>
\<close>

definition tradeToWhaleAlert ::
  "(number \<Rightarrow> string) \<Rightarrow> RawTrade \<Rightarrow> number \<Rightarrow> WhaleAlert option" where
  "tradeToWhaleAlert numStr trade minValue =
     (let value = js_mul (trade_size trade) (trade_price trade) in
      if js_less value minValue then None
      else
        let id = or_string (trade_transactionHash trade) (synthesizedId numStr trade) in
        Some \<lparr> alert_id = id,
               alert_trader = trade_proxyWallet trade,
               alert_traderName =
                 (if truthy (trade_name trade) then trade_name trade
                  else if truthy (trade_pseudonym trade) then trade_pseudonym trade
                  else None),
               alert_side = trade_side trade,
               alert_size = trade_size trade,
               alert_price = trade_price trade,
               alert_value = value,
               alert_market = or_string (Some (trade_title trade)) ''Unknown Market'',
               alert_outcome = or_string (Some (trade_outcome trade)) ''Unknown'',
               alert_timestamp = trade_timestamp trade,
               alert_transactionHash = trade_transactionHash trade \<rparr>)"

text \<open>
  Decimal rendering of a natural number, which is what \<open>Number::toString\<close> gives for the
  counters the notifications print.
\<close>

function natToString :: "nat \<Rightarrow> string" where
  "natToString n =
     (if n < 10 then [''0123456789'' ! n]
      else natToString (n div 10) @ [''0123456789'' ! (n mod 10)])"
  by pat_completeness auto
termination
  by (relation "measure id") auto

declare natToString.simps [simp del]

text \<open>
  \<open>Number::toString\<close> on a finite double \<open>x > 0\<close>: the shortest decimal \<open>s * 10^e\<close> that
  denotes \<open>x\<close> (of two equally short ones the closer to \<open>x\<close>, the even one on a tie), and
  its layout: plain digits, a decimal point, leading zeros, or exponent notation.
\<close>

definition pow10 :: "int \<Rightarrow> rat" where
  "pow10 e = (if 0 \<le> e then 10 ^ nat e else 1 / 10 ^ nat (- e))"

function declen :: "int \<Rightarrow> nat" where
  "declen n = (if n \<le> 0 then 0 else Suc (declen (n div 10)))"
  by pat_completeness auto
termination
  by (relation "measure nat") auto

declare declen.simps [simp del]

text \<open>For \<open>x > 0\<close>, the \<open>n\<close> with \<open>10^(n-1) \<le> x < 10^n\<close>.\<close>

definition decimal_exponent :: "rat \<Rightarrow> int" where
  "decimal_exponent x =
     (if 1 \<le> x then int (declen \<lfloor>x\<rfloor>)
      else 1 - int (declen (- \<lfloor>- (1 / x)\<rfloor> - 1)))"

definition denotes :: "rat \<Rightarrow> int \<Rightarrow> int \<Rightarrow> bool" where
  "denotes x e s = (round_double (of_int s * pow10 e) = Finite x)"

definition closer :: "rat \<Rightarrow> int \<Rightarrow> int \<Rightarrow> int" where
  "closer x e s =
     (if \<bar>of_int s * pow10 e - x\<bar> < \<bar>of_int (s + 1) * pow10 e - x\<bar> then s
      else if \<bar>of_int (s + 1) * pow10 e - x\<bar> < \<bar>of_int s * pow10 e - x\<bar> then s + 1
      else if even s then s else s + 1)"

definition digits_at :: "rat \<Rightarrow> int \<Rightarrow> int option" where
  "digits_at x e =
     (if denotes x e \<lfloor>x / pow10 e\<rfloor> then
        (if denotes x e (\<lfloor>x / pow10 e\<rfloor> + 1) then Some (closer x e \<lfloor>x / pow10 e\<rfloor>)
         else Some \<lfloor>x / pow10 e\<rfloor>)
      else if denotes x e (\<lfloor>x / pow10 e\<rfloor> + 1) then Some (\<lfloor>x / pow10 e\<rfloor> + 1)
      else None)"

text \<open>From \<open>k\<close> digits on, one more at a time; seventeen always suffice for a double.\<close>

function shortest_digits :: "nat \<Rightarrow> rat \<Rightarrow> int \<Rightarrow> int \<times> int" where
  "shortest_digits k x e =
     (if 17 \<le> k then (closer x e \<lfloor>x / pow10 e\<rfloor>, e)
      else case digits_at x e of
             Some s \<Rightarrow> (s, e)
           | None \<Rightarrow> shortest_digits (Suc k) x (e - 1))"
  by pat_completeness auto
termination
  by (relation "measure (\<lambda>(k, x, e). 17 - k)") auto

declare shortest_digits.simps [simp del]

function strip_zeros :: "int \<times> int \<Rightarrow> int \<times> int" where
  "strip_zeros (s, e) =
     (if 0 < s \<and> s mod 10 = 0 then strip_zeros (s div 10, e + 1) else (s, e))"
  by pat_completeness auto
termination
  by (relation "measure (\<lambda>(s, e). nat s)") auto

declare strip_zeros.simps [simp del]

text \<open>The layout of the digits \<open>ds\<close> of a number with \<open>n\<close> digits before the point.\<close>

definition format_digits :: "string \<Rightarrow> int \<Rightarrow> string" where
  "format_digits ds n =
     (if int (length ds) \<le> n \<and> n \<le> 21
      then ds @ replicate (nat (n - int (length ds))) CHR ''0''
      else if 0 < n \<and> n \<le> 21 then take (nat n) ds @ ''.'' @ drop (nat n) ds
      else if - 6 < n \<and> n \<le> 0 then ''0.'' @ replicate (nat (- n)) CHR ''0'' @ ds
      else (if length ds = 1 then ds else take 1 ds @ ''.'' @ drop 1 ds) @ ''e'' @
           (if n - 1 < 0 then ''-'' else ''+'') @ natToString (nat \<bar>n - 1\<bar>))"

definition format_number :: "int \<times> int \<Rightarrow> string" where
  "format_number se =
     format_digits (natToString (nat (fst se)))
       (snd se + int (length (natToString (nat (fst se)))))"

definition positiveToString :: "rat \<Rightarrow> string" where
  "positiveToString x =
     format_number (strip_zeros (shortest_digits 1 x (decimal_exponent x - 1)))"

definition numberToString :: "number \<Rightarrow> string" where
  "numberToString x =
     (if x = 0 then ''0''
      else if x < 0 then ''-'' @ positiveToString (- x)
      else positiveToString x)"

section \<open>The accumulator store\<close>

text \<open>
  \<open>Map<string, WhaleAlert>\<close>: the entries in insertion order, which is the order
  \<open>values()\<close> iterates in. \<open>set\<close> on a key that is present replaces the value where it
  stands; on a new key it appends.
\<close>

type_synonym alertMap = "(string \<times> WhaleAlert) list"

definition map_has :: "alertMap \<Rightarrow> string \<Rightarrow> bool" where
  "map_has m k = (k \<in> set (map fst m))"

fun map_set :: "alertMap \<Rightarrow> string \<Rightarrow> WhaleAlert \<Rightarrow> alertMap" where
  "map_set [] k v = [(k, v)]"
| "map_set ((k', v') # m) k v =
     (if k' = k then (k, v) # m else (k', v') # map_set m k v)"

definition map_values :: "alertMap \<Rightarrow> WhaleAlert list" where
  "map_values m = map snd m"

text \<open>
  \<^verbatim>\<open>const whaleStore = { alerts: new Map<string, WhaleAlert>(), oldestOffset: 0 };\<close>
  The cursor is a JavaScript number like any other.
\<close>

record WhaleStore =
  alerts :: alertMap
  oldestOffset :: number

definition whaleStore :: WhaleStore where
  "whaleStore = \<lparr> alerts = [], oldestOffset = 0 \<rparr>"

text \<open>
  The body of the two merge loops (the refresh cycle's and the pagination cycle's are the
  same text):
  \<^verbatim>\<open>
  if (alert && !whaleStore.alerts.has(alert.id)) {
    whaleStore.alerts.set(alert.id, alert);
    count++;
  }
  \<close>
\<close>

definition mergeAlert :: "alertMap \<times> nat \<Rightarrow> WhaleAlert option \<Rightarrow> alertMap \<times> nat" where
  "mergeAlert mc alert =
     (case alert of
        None \<Rightarrow> mc
      | Some a \<Rightarrow>
          if \<not> map_has (fst mc) (alert_id a)
          then (map_set (fst mc) (alert_id a) a, snd mc + 1)
          else mc)"

text \<open>\<^verbatim>\<open>for (const trade of trades) { const alert = tradeToWhaleAlert(trade, minValue); ... }\<close>\<close>

fun mergeTrades ::
  "(number \<Rightarrow> string) \<Rightarrow> number \<Rightarrow> RawTrade list \<Rightarrow> alertMap \<times> nat \<Rightarrow> alertMap \<times> nat" where
  "mergeTrades numStr minValue [] mc = mc"
| "mergeTrades numStr minValue (trade # trades) mc =
     mergeTrades numStr minValue trades
       (mergeAlert mc (tradeToWhaleAlert numStr trade minValue))"

text \<open>
  \<open>Array.prototype.sort\<close> with a comparator: a stable sort, written as the insertion sort
  that puts each element before the first one it does not have to follow. The comparator
  of the snapshot is \<^verbatim>\<open>(a, b) => b.timestamp - a.timestamp\<close>.
\<close>

fun insertBy :: "('a \<Rightarrow> 'a \<Rightarrow> number) \<Rightarrow> 'a \<Rightarrow> 'a list \<Rightarrow> 'a list" where
  "insertBy cmp x [] = [x]"
| "insertBy cmp x (y # ys) =
     (if cmp x y \<le> 0 then x # y # ys else y # insertBy cmp x ys)"

definition array_sort :: "('a \<Rightarrow> 'a \<Rightarrow> number) \<Rightarrow> 'a list \<Rightarrow> 'a list" where
  "array_sort cmp xs = foldr (insertBy cmp) xs []"

definition byTimestampDesc :: "WhaleAlert \<Rightarrow> WhaleAlert \<Rightarrow> number" where
  "byTimestampDesc a b = alert_timestamp b - alert_timestamp a"

section \<open>The hook: refresh cycle\<close>

text \<open>
  What a call of \<open>fetchRecentTrades(limit, offset)\<close> resolves to: the page, or the
  rejection of its promise (a transport failure, or a payload the schema refuses). The
  functions below take the upstream as a function of the two arguments.
\<close>

datatype FetchError = TransportError | SchemaError

type_synonym fetcher = "number \<Rightarrow> number \<Rightarrow> FetchError + RawTrade list"

record QueryData =
  data_alerts :: "WhaleAlert list"
  data_newCount :: nat
  data_updatedAt :: number

text \<open>
  The state of one mounted \<open>useWhaleActivity\<close>: the module-level store, the three
  \<open>useState\<close> cells, and the \<open>data\<close> and \<open>error\<close> of the query.
\<close>

record HookState =
  store :: WhaleStore
  isLoadingMore :: bool
  lastUpdated :: "number option"
  isManualRefresh :: bool
  query_data :: "QueryData option"
  query_error :: "FetchError option"

definition initialHook :: HookState where
  "initialHook = \<lparr> store = whaleStore, isLoadingMore = False, lastUpdated = None,
                    isManualRefresh = False, query_data = None, query_error = None \<rparr>"

text \<open>
  \<open>queryFn\<close>: fetch the newest page, merge it, return the sorted store. \<open>now\<close> is what
  \<open>Date.now()\<close> returns. A rejected fetch rejects \<open>queryFn\<close> before it touches anything.
\<close>

definition queryFn ::
  "(number \<Rightarrow> string) \<Rightarrow> number \<Rightarrow> fetcher \<Rightarrow> number \<Rightarrow> HookState
     \<Rightarrow> (FetchError + QueryData) \<times> HookState" where
  "queryFn numStr minValue fetchRecentTrades now st =
     (case fetchRecentTrades 500 0 of
        Inl err \<Rightarrow> (Inl err, st)
      | Inr trades \<Rightarrow>
          let (m, newCount) = mergeTrades numStr minValue trades (alerts (store st), 0);
              st1 = st \<lparr> store := (store st) \<lparr> alerts := m \<rparr> \<rparr>;
              sorted_alerts = array_sort byTimestampDesc (map_values (alerts (store st1)));
              st2 = st1 \<lparr> lastUpdated := Some now \<rparr>
          in (Inr \<lparr> data_alerts = sorted_alerts, data_newCount = newCount,
                     data_updatedAt = now \<rparr>, st2))"

text \<open>
  The query library around \<open>queryFn\<close> (TanStack Query, not part of the repository),
  following its documented contract. One fetch of the query runs \<open>queryFn\<close> and records
  the outcome: fresh data replaces \<open>data\<close> and clears \<open>error\<close>; a failure sets \<open>error\<close>
  and keeps the previous \<open>data\<close>. The interval timer and the window-focus trigger run
  exactly this.
\<close>

definition query_fetch ::
  "(number \<Rightarrow> string) \<Rightarrow> number \<Rightarrow> fetcher \<Rightarrow> number \<Rightarrow> HookState
     \<Rightarrow> (FetchError + QueryData) \<times> HookState" where
  "query_fetch numStr minValue fetchRecentTrades now st =
     (case queryFn numStr minValue fetchRecentTrades now st of
        (Inr d, st') \<Rightarrow> (Inr d, st' \<lparr> query_data := Some d, query_error := None \<rparr>)
      | (Inl err, st') \<Rightarrow> (Inl err, st' \<lparr> query_error := Some err \<rparr>))"

text \<open>
  \<open>query.refetch({ throwOnError })\<close>: the promise resolves with the current result of
  the query, whose \<open>data\<close> is the last data fetched successfully; it rejects only when the
  caller passes \<open>throwOnError: true\<close>.
\<close>

definition query_refetch ::
  "bool \<Rightarrow> (number \<Rightarrow> string) \<Rightarrow> number \<Rightarrow> fetcher \<Rightarrow> number \<Rightarrow> HookState
     \<Rightarrow> (FetchError + QueryData option) \<times> HookState" where
  "query_refetch throwOnError numStr minValue fetchRecentTrades now st =
     (case query_fetch numStr minValue fetchRecentTrades now st of
        (Inr d, st') \<Rightarrow> (Inr (query_data st'), st')
      | (Inl err, st') \<Rightarrow>
          if throwOnError then (Inl err, st') else (Inr (query_data st'), st'))"

text \<open>
  \<open>queryClient.invalidateQueries({ queryKey: ['whaleActivity'] })\<close>: the mounted query
  is fetched again; the promise never rejects.
\<close>

definition invalidateQueries ::
  "(number \<Rightarrow> string) \<Rightarrow> number \<Rightarrow> fetcher \<Rightarrow> number \<Rightarrow> HookState \<Rightarrow> HookState" where
  "invalidateQueries numStr minValue fetchRecentTrades now st =
     snd (query_fetch numStr minValue fetchRecentTrades now st)"

text \<open>
  The hook's \<open>refetch\<close>, the manual-refresh entry point:
  \<^verbatim>\<open>
  setIsManualRefresh(true);
  try {
    const result = await query.refetch();
    return result.data?.newCount ?? 0;
  } finally {
    setTimeout(() => setIsManualRefresh(false), 100);
  }
  \<close>
  \<open>Inl\<close> is a rejected promise. The timer callback is \<open>manualRefreshTimeout\<close>.
\<close>

definition refetch ::
  "(number \<Rightarrow> string) \<Rightarrow> number \<Rightarrow> fetcher \<Rightarrow> number \<Rightarrow> HookState
     \<Rightarrow> (FetchError + nat) \<times> HookState" where
  "refetch numStr minValue fetchRecentTrades now st =
     (let st1 = st \<lparr> isManualRefresh := True \<rparr> in
      case query_refetch False numStr minValue fetchRecentTrades now st1 of
        (Inr result_data, st2) \<Rightarrow>
          (Inr (case result_data of None \<Rightarrow> 0 | Some d \<Rightarrow> data_newCount d), st2)
      | (Inl err, st2) \<Rightarrow> (Inl err, st2))"

definition manualRefreshTimeout :: "HookState \<Rightarrow> HookState" where
  "manualRefreshTimeout st = st \<lparr> isManualRefresh := False \<rparr>"

text \<open>
  The effect that reports automatic refreshes:
  \<^verbatim>\<open>
  useEffect(() => {
    if (query.data && !isManualRefresh && onAutoRefreshRef.current)
      onAutoRefreshRef.current(query.data.newCount);
  }, [query.data?.updatedAt, isManualRefresh]);
  \<close>
  It runs after a render whose dependencies differ from those of the render before. The
  callback acts on the state of the component that passed it.
\<close>

definition autoRefreshEffect ::
  "(nat \<Rightarrow> 'app \<Rightarrow> 'app) option \<Rightarrow> HookState \<Rightarrow> 'app \<Rightarrow> 'app" where
  "autoRefreshEffect onAutoRefresh st app =
     (case query_data st of
        None \<Rightarrow> app
      | Some d \<Rightarrow>
          (case onAutoRefresh of
             None \<Rightarrow> app
           | Some callback \<Rightarrow>
               if \<not> isManualRefresh st then callback (data_newCount d) app else app))"

definition effectDeps :: "HookState \<Rightarrow> number option \<times> bool" where
  "effectDeps st = (map_option data_updatedAt (query_data st), isManualRefresh st)"

definition afterRender ::
  "(nat \<Rightarrow> 'app \<Rightarrow> 'app) option \<Rightarrow> HookState \<Rightarrow> HookState \<Rightarrow> 'app \<Rightarrow> 'app" where
  "afterRender onAutoRefresh prev st app =
     (if effectDeps st \<noteq> effectDeps prev then autoRefreshEffect onAutoRefresh st app
      else app)"

section \<open>The hook: pagination cycle\<close>

text \<open>
  \<^verbatim>\<open>
  const loadMore = useCallback(async (): Promise<number> => {
    if (isLoadingMore) return 0;
    setIsLoadingMore(true);
    let foundCount = 0;
    try {
      const newOffset = whaleStore.oldestOffset + 500;
      const trades = await fetchRecentTrades(500, newOffset);
      if (trades.length > 0) {
        for (const trade of trades) { ... foundCount++ ... }
        whaleStore.oldestOffset = newOffset;
        await queryClient.invalidateQueries({ queryKey: ['whaleActivity'] });
      }
    } catch (error) { console.error(...); } finally { setIsLoadingMore(false); }
    return foundCount;
  }, [isLoadingMore, queryClient]);
  \<close>
  The \<open>isLoadingMore\<close> that the guard tests is not the state cell at the time of the
  call: it is the constant of the render that created the callback, captured by the
  closure. It is the first argument of \<open>loadMore_begin\<close>. The call runs up to its first
  \<open>await\<close>: it has either resolved, or it is suspended on a fetch with the arguments
  shown. \<open>loadMore_resume\<close> is the rest of the body, run when that fetch settles, with the
  \<open>newOffset\<close> the call computed before suspending.
\<close>

datatype LoadMoreStart = Resolved nat | Awaiting number number

definition loadMore_begin :: "bool \<Rightarrow> HookState \<Rightarrow> LoadMoreStart \<times> HookState" where
  "loadMore_begin isLoadingMore_captured st =
     (if isLoadingMore_captured then (Resolved 0, st)
      else
        let st1 = st \<lparr> isLoadingMore := True \<rparr>;
            newOffset = oldestOffset (store st1) + 500
        in (Awaiting 500 newOffset, st1))"

definition loadMore_resume ::
  "(number \<Rightarrow> string) \<Rightarrow> number \<Rightarrow> fetcher \<Rightarrow> number \<Rightarrow> number
     \<Rightarrow> FetchError + RawTrade list \<Rightarrow> HookState \<Rightarrow> nat \<times> HookState" where
  "loadMore_resume numStr minValue fetchOnInvalidate now newOffset response st =
     (case response of
        Inl err \<Rightarrow> (0, st \<lparr> isLoadingMore := False \<rparr>)
      | Inr trades \<Rightarrow>
          if length trades > 0 then
            let (m, foundCount) = mergeTrades numStr minValue trades (alerts (store st), 0);
                st1 = st \<lparr> store := (store st) \<lparr> alerts := m \<rparr> \<rparr>;
                st2 = st1 \<lparr> store := (store st1) \<lparr> oldestOffset := newOffset \<rparr> \<rparr>;
                st3 = invalidateQueries numStr minValue fetchOnInvalidate now st2
            in (foundCount, st3 \<lparr> isLoadingMore := False \<rparr>)
          else (0, st \<lparr> isLoadingMore := False \<rparr>))"

text \<open>
  A whole call through the callback of a render whose guard was \<open>isLoadingMore_captured\<close>,
  from entry to the value its promise resolves with, nothing else running in between:
  \<open>fetchRecentTrades\<close> answers the call's own fetch, \<open>fetchOnInvalidate\<close> the refresh that
  the invalidation starts.
\<close>

definition loadMore_callback ::
  "bool \<Rightarrow> (number \<Rightarrow> string) \<Rightarrow> number \<Rightarrow> fetcher \<Rightarrow> fetcher \<Rightarrow> number \<Rightarrow> HookState
     \<Rightarrow> nat \<times> HookState" where
  "loadMore_callback isLoadingMore_captured numStr minValue fetchRecentTrades fetchOnInvalidate
       now st =
     (case loadMore_begin isLoadingMore_captured st of
        (Resolved n, st') \<Rightarrow> (n, st')
      | (Awaiting limit offset, st') \<Rightarrow>
          loadMore_resume numStr minValue fetchOnInvalidate now offset
            (fetchRecentTrades limit offset) st')"

text \<open>
  \<open>loadMore\<close> as the hook returns it in the state \<open>st\<close>: the callback of the render that
  shows \<open>st\<close>, which is the one the component's button calls.
\<close>

definition loadMore ::
  "(number \<Rightarrow> string) \<Rightarrow> number \<Rightarrow> fetcher \<Rightarrow> fetcher \<Rightarrow> number \<Rightarrow> HookState
     \<Rightarrow> nat \<times> HookState" where
  "loadMore numStr minValue fetchRecentTrades fetchOnInvalidate now st =
     loadMore_callback (isLoadingMore st) numStr minValue fetchRecentTrades fetchOnInvalidate
       now st"

section \<open>The component: notifications\<close>

datatype ToastType = success | info | warning

record Toast =
  toast_id :: nat
  toast_message :: string
  toast_type :: ToastType

record AppState =
  toast :: "Toast option"
  toastIdRef :: nat
  isRefreshing :: bool

definition initialApp :: AppState where
  "initialApp = \<lparr> toast = None, toastIdRef = 0, isRefreshing = False \<rparr>"

text \<open>
  \<^verbatim>\<open>toastIdRef.current += 1; setToast({ id: toastIdRef.current, message, type })\<close>:
  every notification takes the next value of the counter.
\<close>

definition showToast :: "string \<Rightarrow> ToastType \<Rightarrow> AppState \<Rightarrow> AppState" where
  "showToast message type app =
     (let n = toastIdRef app + 1 in
      app \<lparr> toastIdRef := n,
            toast := Some \<lparr> toast_id = n, toast_message = message, toast_type = type \<rparr> \<rparr>)"

definition plural :: "nat \<Rightarrow> string" where
  "plural n = (if n > 1 then ''s'' else [])"

definition handleAutoRefresh :: "nat \<Rightarrow> AppState \<Rightarrow> AppState" where
  "handleAutoRefresh newCount app =
     (if newCount > 0
      then showToast (natToString newCount @ '' new whale'' @ plural newCount @ '' detected!'')
             success app
      else app)"

text \<open>
  \<^verbatim>\<open>
  setIsRefreshing(true)
  try {
    const newCount = await refetchWhales()
    if (newCount > 0) showToast(`Found ${newCount} new whale trade${...}!`, 'success')
    else showToast('No new trades yet', 'info')
  } catch { showToast('Failed to refresh', 'warning') }
  finally { setIsRefreshing(false) }
  \<close>
\<close>

definition handleRefresh ::
  "(number \<Rightarrow> string) \<Rightarrow> number \<Rightarrow> fetcher \<Rightarrow> number \<Rightarrow> HookState \<times> AppState
     \<Rightarrow> HookState \<times> AppState" where
  "handleRefresh numStr minValue fetchRecentTrades now sa =
     (let app1 = (snd sa) \<lparr> isRefreshing := True \<rparr> in
      case refetch numStr minValue fetchRecentTrades now (fst sa) of
        (Inr newCount, st') \<Rightarrow>
          (st',
           (if newCount > 0
            then showToast (''Found '' @ natToString newCount @ '' new whale trade'' @
                            plural newCount @ ''!'') success app1
            else showToast ''No new trades yet'' info app1) \<lparr> isRefreshing := False \<rparr>)
      | (Inl err, st') \<Rightarrow>
          (st', (showToast ''Failed to refresh'' warning app1) \<lparr> isRefreshing := False \<rparr>))"

text \<open>The part of \<open>handleLoadMore\<close> after \<open>await loadMoreWhales()\<close>.\<close>

definition loadMoreToast :: "nat \<Rightarrow> AppState \<Rightarrow> AppState" where
  "loadMoreToast foundCount app =
     (if foundCount > 0
      then showToast (''Found '' @ natToString foundCount @ '' more whale trade'' @
                      plural foundCount) success app
      else showToast ''No more trades in API range'' info app)"

section \<open>Cycles and the event loop\<close>

text \<open>
  A refresh cycle started by the interval timer or by window focus: the query fetches,
  the component renders, the effect runs if its dependencies changed.
\<close>

definition autoRefreshCycle ::
  "(number \<Rightarrow> string) \<Rightarrow> number \<Rightarrow> fetcher \<Rightarrow> number \<Rightarrow> HookState \<times> AppState
     \<Rightarrow> HookState \<times> AppState" where
  "autoRefreshCycle numStr minValue fetchRecentTrades now sa =
     (let st' = snd (query_fetch numStr minValue fetchRecentTrades now (fst sa)) in
      (st', afterRender (Some handleAutoRefresh) (fst sa) st' (snd sa)))"

text \<open>
  A refresh cycle started by the button: \<open>handleRefresh\<close>, with the render that follows
  \<open>setIsManualRefresh(true)\<close> and the one that follows the arrival of the data; then,
  100 ms later, the timer callback and the render it causes.
\<close>

definition manualRefreshStart ::
  "(number \<Rightarrow> string) \<Rightarrow> number \<Rightarrow> fetcher \<Rightarrow> number \<Rightarrow> HookState \<times> AppState
     \<Rightarrow> HookState \<times> AppState" where
  "manualRefreshStart numStr minValue fetchRecentTrades now sa =
     (let flagged = (fst sa) \<lparr> isManualRefresh := True \<rparr>;
          app0 = afterRender (Some handleAutoRefresh) (fst sa) flagged (snd sa);
          (st1, app1) = handleRefresh numStr minValue fetchRecentTrades now (fst sa, app0)
      in (st1, afterRender (Some handleAutoRefresh) flagged st1 app1))"

definition manualRefreshEnd :: "HookState \<times> AppState \<Rightarrow> HookState \<times> AppState" where
  "manualRefreshEnd sa =
     (let st' = manualRefreshTimeout (fst sa) in
      (st', afterRender (Some handleAutoRefresh) (fst sa) st' (snd sa)))"

definition manualRefreshCycle ::
  "(number \<Rightarrow> string) \<Rightarrow> number \<Rightarrow> fetcher \<Rightarrow> number \<Rightarrow> HookState \<times> AppState
     \<Rightarrow> HookState \<times> AppState" where
  "manualRefreshCycle numStr minValue fetchRecentTrades now sa =
     manualRefreshEnd (manualRefreshStart numStr minValue fetchRecentTrades now sa)"

text \<open>
  The running application: the hook, the component, and the fetch arguments of every
  \<open>loadMore\<close> call that is suspended on its fetch. An event is one uninterrupted piece of
  execution; the upstream's answers and the clock come with the event. A call of
  \<open>loadMore\<close> comes with the guard its callback captured: that of the latest render, or
  of an earlier one when the caller still holds an older callback or calls again before
  the component has rendered. The fetches in flight settle in any order: the event names
  the one that does.
\<close>

record SysState =
  hook :: HookState
  app :: AppState
  inflight :: "(number \<times> number) list"

datatype Event =
    AutoRefresh fetcher number
  | ManualRefresh fetcher number
  | ManualTimeout
  | LoadMoreCall bool
  | LoadMoreFetched nat fetcher fetcher number


text \<open>
  When a pagination fetch settles, \<open>handleLoadMore\<close> shows its toast as the call returns;
  the render with the data of the invalidated query, and its effect, come after.
\<close>

fun step :: "(number \<Rightarrow> string) \<Rightarrow> number \<Rightarrow> Event \<Rightarrow> SysState \<Rightarrow> SysState" where
  "step numStr minValue (AutoRefresh fetchRecentTrades now) s =
     (let (h, a) = autoRefreshCycle numStr minValue fetchRecentTrades now (hook s, app s)
      in s \<lparr> hook := h, app := a \<rparr>)"
| "step numStr minValue (ManualRefresh fetchRecentTrades now) s =
     (let (h, a) = manualRefreshStart numStr minValue fetchRecentTrades now (hook s, app s)
      in s \<lparr> hook := h, app := a \<rparr>)"
| "step numStr minValue ManualTimeout s =
     (let (h, a) = manualRefreshEnd (hook s, app s) in s \<lparr> hook := h, app := a \<rparr>)"
| "step numStr minValue (LoadMoreCall isLoadingMore_captured) s =
     (case loadMore_begin isLoadingMore_captured (hook s) of
        (Resolved n, h) \<Rightarrow> s \<lparr> hook := h, app := loadMoreToast n (app s) \<rparr>
      | (Awaiting limit offset, h) \<Rightarrow>
          s \<lparr> hook := h, inflight := inflight s @ [(limit, offset)] \<rparr>)"
| "step numStr minValue (LoadMoreFetched i fetchRecentTrades fetchOnInvalidate now) s =
     (if i < length (inflight s) then
        let limit = fst (inflight s ! i);
            offset = snd (inflight s ! i);
            (n, h) = loadMore_resume numStr minValue fetchOnInvalidate now offset
                       (fetchRecentTrades limit offset) (hook s);
            a = loadMoreToast n (app s)
        in s \<lparr> hook := h, app := afterRender (Some handleAutoRefresh) (hook s) h a,
               inflight := take i (inflight s) @ drop (Suc i) (inflight s) \<rparr>
      else s)"


definition isLoadMoreFetched :: "Event \<Rightarrow> bool" where
  "isLoadMoreFetched e = (case e of LoadMoreFetched i f g n \<Rightarrow> True | _ \<Rightarrow> False)"



section \<open>Invariants\<close>

text \<open>
  What every refresh operation leaves alone: the entries already in the store, the
  cursor, and the pagination guard.
\<close>

definition refreshFrame :: "HookState \<Rightarrow> HookState \<Rightarrow> bool" where
  "refreshFrame st st' \<longleftrightarrow>
     prefix (alerts (store st)) (alerts (store st')) \<and>
     oldestOffset (store st') = oldestOffset (store st) \<and>
     isLoadingMore st' = isLoadingMore st"




section \<open>Worked examples\<close>

text \<open>
  Doubles are written by their values: \<open>5404319552844595 / 9007199254740992\<close> is the
  double that the literal \<open>0.6\<close> denotes.
\<close>

definition exampleTrade :: "number \<Rightarrow> number \<Rightarrow> number \<Rightarrow> string option \<Rightarrow> RawTrade" where
  "exampleTrade ts sz pr txHash =
     \<lparr> trade_proxyWallet = ''0xabc'', trade_side = BUY, trade_size = sz, trade_price = pr,
       trade_conditionId = ''m1'', trade_title = ''Title'', trade_outcome = ''Yes'',
       trade_timestamp = ts, trade_name = None, trade_pseudonym = None,
       trade_transactionHash = txHash \<rparr>"

definition emptyUpstream :: fetcher where
  "emptyUpstream limit offset = Inr []"

definition failingUpstream :: fetcher where
  "failingUpstream limit offset = Inl TransportError"

definition smallTradeUpstream :: fetcher where
  "smallTradeUpstream limit offset = Inr [exampleTrade 10 100 5 None]"

definition threeWhalesUpstream :: fetcher where
  "threeWhalesUpstream limit offset =
     Inr [exampleTrade 10 2000 1 (Some ''0xa''), exampleTrade 30 3000 1 (Some ''0xb''),
          exampleTrade 20 5000 1 (Some ''0xc'')]"

definition exampleAlert :: "string \<Rightarrow> number \<Rightarrow> WhaleAlert" where
  "exampleAlert k ts =
     \<lparr> alert_id = k, alert_trader = ''0xabc'', alert_traderName = None, alert_side = BUY,
       alert_size = 2000, alert_price = 1, alert_value = Finite 2000, alert_market = ''Title'',
       alert_outcome = ''Yes'', alert_timestamp = ts, alert_transactionHash = Some k \<rparr>"



text \<open>A trade of size 5555.555555555556 at price 0.18, and one of size 2000 at price 0.6.\<close>

definition roundedUpTrade :: RawTrade where
  "roundedUpTrade =
     exampleTrade 10 (6108397932088889 / 1099511627776)
       (3242591731706757 / 18014398509481984) (Some ''0xa'')"

definition specTrade :: RawTrade where
  "specTrade = exampleTrade 10 2000 (5404319552844595 / 9007199254740992) None"

definition exampleRefresh :: "(FetchError + QueryData) \<times> HookState" where
  "exampleRefresh = queryFn numberToString 1000 threeWhalesUpstream 0 initialHook"

section \<open>Evaluating the arithmetic\<close>

lemma floor_rat_numeral [simp]:
  "\<lfloor>(numeral a :: rat) / numeral b\<rfloor> = numeral a div numeral b"
  using floor_divide_of_int_eq [of "numeral a" "numeral b", where ?'a = rat] by simp

lemma floor_rat_minus_numeral [simp]:
  "\<lfloor>- ((numeral a :: rat) / numeral b)\<rfloor> = - numeral a div numeral b"
  using floor_divide_of_int_eq [of "- numeral a" "numeral b", where ?'a = rat] by simp

lemmas double_eval = js_mul_def round_double_def with_sign_def ulp_exponent_def round_to_ulp_def
  floor_log2_def bitlen.simps pow2_def round_half_even_def

lemmas toString_eval = numberToString_def positiveToString_def format_number_def format_digits_def
  strip_zeros.simps shortest_digits.simps digits_at_def closer_def denotes_def
  decimal_exponent_def declen.simps pow10_def natToString.simps eval_nat_numeral

lemma example_products:
  "js_mul 2000 1 = Finite 2000" "js_mul 3000 1 = Finite 3000" "js_mul 5000 1 = Finite 5000"
  "js_mul 100 5 = Finite 500"
  by (simp_all add: double_eval)

lemma example_rounded_products:
  "js_mul 2000 (5404319552844595 / 9007199254740992) = Finite 1200"
  "js_mul (6108397932088889 / 1099511627776) (3242591731706757 / 18014398509481984) =
     Finite 1000"
  by (simp_all add: double_eval)

lemma example_strings: "numberToString 10 = ''10''" "numberToString 2000 = ''2000''"
  by (simp_all add: toString_eval double_eval)

section \<open>Merging into the store\<close>

lemma map_set_new: "\<not> map_has m k \<Longrightarrow> map_set m k v = m @ [(k, v)]"
  by (induction m) (auto simp: map_has_def)

lemma map_has_append: "map_has (m @ m') k = (map_has m k \<or> map_has m' k)"
  by (auto simp: map_has_def)

lemma mergeAlert_cases:
  "mergeAlert mc al = mc \<or>
   (\<exists>a. al = Some a \<and> \<not> map_has (fst mc) (alert_id a) \<and>
        mergeAlert mc al = (fst mc @ [(alert_id a, a)], snd mc + 1))"
  by (cases al) (auto simp: mergeAlert_def map_set_new)

lemma mergeAlert_prefix: "prefix (fst mc) (fst (mergeAlert mc al))"
  using mergeAlert_cases [of mc al] by auto

lemma mergeTrades_prefix: "prefix (fst mc) (fst (mergeTrades numStr minValue trades mc))"
proof (induction trades arbitrary: mc)
  case Nil
  show ?case by simp
next
  case (Cons t ts)
  have "prefix (fst mc) (fst (mergeAlert mc (tradeToWhaleAlert numStr t minValue)))"
    by (rule mergeAlert_prefix)
  also have "prefix \<dots> (fst (mergeTrades numStr minValue (t # ts) mc))"
    using Cons.IH by simp
  finally show ?case .
qed

lemma mergeAlert_present: "map_has (fst (mergeAlert mc (Some a))) (alert_id a)"
  by (cases "map_has (fst mc) (alert_id a)") (simp_all add: mergeAlert_def map_set_new map_has_append, simp add: map_has_def)

lemma map_has_prefix: "prefix m m' \<Longrightarrow> map_has m k \<Longrightarrow> map_has m' k"
  by (auto simp: prefix_def map_has_append)

lemma mergeAlert_noop: "map_has (fst mc) (alert_id a) \<Longrightarrow> mergeAlert mc (Some a) = mc"
  by (simp add: mergeAlert_def)

lemma mergeTrades_nothing_new:
  "\<forall>t \<in> set trades.
     tradeToWhaleAlert numStr t minValue = None \<or>
     (\<exists>a. tradeToWhaleAlert numStr t minValue = Some a \<and> map_has (fst mc) (alert_id a)) \<Longrightarrow>
   mergeTrades numStr minValue trades mc = mc"
  by (induction trades) (auto simp: mergeAlert_def)

section \<open>What the refresh operations preserve\<close>

lemma queryFn_frame: "refreshFrame st (snd (queryFn numStr minValue fetch now st))"
proof (cases "fetch 500 0")
  case (Inl err)
  then show ?thesis by (simp add: queryFn_def refreshFrame_def)
next
  case (Inr trades)
  obtain m n where mn: "mergeTrades numStr minValue trades (alerts (store st), 0) = (m, n)"
    by (cases "mergeTrades numStr minValue trades (alerts (store st), 0)")
  have "prefix (alerts (store st)) m"
    using mergeTrades_prefix [of "(alerts (store st), 0)" numStr minValue trades] mn by simp
  with Inr mn show ?thesis by (simp add: queryFn_def refreshFrame_def)
qed

lemma query_fetch_frame: "refreshFrame st (snd (query_fetch numStr minValue fetch now st))"
proof -
  obtain r st' where q: "queryFn numStr minValue fetch now st = (r, st')"
    by (cases "queryFn numStr minValue fetch now st")
  with queryFn_frame [of st numStr minValue fetch now] have "refreshFrame st st'" by simp
  with q show ?thesis
    by (cases r) (simp_all add: query_fetch_def refreshFrame_def)
qed

lemma invalidateQueries_frame:
  "refreshFrame st (invalidateQueries numStr minValue fetch now st)"
  by (simp add: invalidateQueries_def query_fetch_frame)

lemma query_refetch_frame:
  "refreshFrame st (snd (query_refetch throwOnError numStr minValue fetch now st))"
proof -
  obtain r st' where q: "query_fetch numStr minValue fetch now st = (r, st')"
    by (cases "query_fetch numStr minValue fetch now st")
  with query_fetch_frame [of st numStr minValue fetch now] have "refreshFrame st st'" by simp
  with q show ?thesis
    by (cases r) (simp_all add: query_refetch_def)
qed

lemma refetch_frame: "refreshFrame st (snd (refetch numStr minValue fetch now st))"
proof -
  let ?st1 = "st \<lparr> isManualRefresh := True \<rparr>"
  obtain r st2 where q: "query_refetch False numStr minValue fetch now ?st1 = (r, st2)"
    by (cases "query_refetch False numStr minValue fetch now ?st1")
  with query_refetch_frame [of ?st1 False numStr minValue fetch now]
  have "refreshFrame ?st1 st2" by simp
  then have "refreshFrame st st2" by (simp add: refreshFrame_def)
  with q show ?thesis
    by (cases r) (simp_all add: refetch_def)
qed

lemma handleRefresh_frame:
  "refreshFrame (fst sa) (fst (handleRefresh numStr minValue fetch now sa))"
proof -
  obtain r st' where q: "refetch numStr minValue fetch now (fst sa) = (r, st')"
    by (cases "refetch numStr minValue fetch now (fst sa)")
  with refetch_frame [of "fst sa" numStr minValue fetch now] have "refreshFrame (fst sa) st'"
    by simp
  with q show ?thesis
    by (cases r) (simp_all add: handleRefresh_def Let_def)
qed

lemma autoRefreshCycle_frame:
  "refreshFrame (fst sa) (fst (autoRefreshCycle numStr minValue fetch now sa))"
  by (simp add: autoRefreshCycle_def Let_def query_fetch_frame)

lemma manualRefreshStart_frame:
  "refreshFrame (fst sa) (fst (manualRefreshStart numStr minValue fetch now sa))"
proof -
  let ?app0 = "afterRender (Some handleAutoRefresh) (fst sa)
                 ((fst sa) \<lparr> isManualRefresh := True \<rparr>) (snd sa)"
  obtain st1 app1 where h: "handleRefresh numStr minValue fetch now (fst sa, ?app0) = (st1, app1)"
    by (cases "handleRefresh numStr minValue fetch now (fst sa, ?app0)")
  with handleRefresh_frame [of "(fst sa, ?app0)" numStr minValue fetch now]
  have "refreshFrame (fst sa) st1" by simp
  with h show ?thesis
    by (simp add: manualRefreshStart_def Let_def)
qed

lemma manualRefreshEnd_frame: "refreshFrame (fst sa) (fst (manualRefreshEnd sa))"
  by (simp add: manualRefreshEnd_def manualRefreshTimeout_def Let_def refreshFrame_def)

lemma loadMore_resume_store:
  "prefix (alerts (store st))
     (alerts (store (snd (loadMore_resume numStr minValue fetch now newOffset response st)))) \<and>
   (oldestOffset (store (snd (loadMore_resume numStr minValue fetch now newOffset response st)))
      = oldestOffset (store st) \<or>
    oldestOffset (store (snd (loadMore_resume numStr minValue fetch now newOffset response st)))
      = newOffset) \<and>
   \<not> isLoadingMore (snd (loadMore_resume numStr minValue fetch now newOffset response st))"
proof (cases response)
  case (Inl err)
  then show ?thesis by (simp add: loadMore_resume_def)
next
  case (Inr trades)
  show ?thesis
  proof (cases "trades = []")
    case True
    with Inr show ?thesis by (simp add: loadMore_resume_def)
  next
    case False
    obtain m n where mn: "mergeTrades numStr minValue trades (alerts (store st), 0) = (m, n)"
      by (cases "mergeTrades numStr minValue trades (alerts (store st), 0)")
    let ?st2 = "st \<lparr> store := (store st) \<lparr> alerts := m, oldestOffset := newOffset \<rparr> \<rparr>"
    have pm: "prefix (alerts (store st)) m"
      using mergeTrades_prefix [of "(alerts (store st), 0)" numStr minValue trades] mn by simp
    have "refreshFrame ?st2 (invalidateQueries numStr minValue fetch now ?st2)"
      by (rule invalidateQueries_frame)
    with pm have "prefix (alerts (store st))
                    (alerts (store (invalidateQueries numStr minValue fetch now ?st2))) \<and>
                  oldestOffset (store (invalidateQueries numStr minValue fetch now ?st2)) = newOffset"
      by (auto simp: refreshFrame_def)
    with Inr False mn show ?thesis by (simp add: loadMore_resume_def)
  qed
qed

section \<open>The event loop keeps pagination single-flight\<close>

lemma loadMore_begin_cases:
  "loadMore_begin True st = (Resolved 0, st)"
  "loadMore_begin False st =
     (Awaiting 500 (oldestOffset (store st) + 500), st \<lparr> isLoadingMore := True \<rparr>)"
  by (simp_all add: loadMore_begin_def Let_def)

lemma step_refresh_cases:
  assumes "\<not> isLoadMoreFetched e" and "\<forall>c. e \<noteq> LoadMoreCall c"
  shows "\<exists>h a. step numStr minValue e s = s \<lparr> hook := h, app := a \<rparr> \<and> refreshFrame (hook s) h"
proof (cases e)
  case (AutoRefresh f now)
  obtain h a where c: "autoRefreshCycle numStr minValue f now (hook s, app s) = (h, a)"
    by (cases "autoRefreshCycle numStr minValue f now (hook s, app s)")
  with autoRefreshCycle_frame [of "(hook s, app s)" numStr minValue f now]
  have "refreshFrame (hook s) h" by simp
  with AutoRefresh c show ?thesis by auto
next
  case (ManualRefresh f now)
  obtain h a where c: "manualRefreshStart numStr minValue f now (hook s, app s) = (h, a)"
    by (cases "manualRefreshStart numStr minValue f now (hook s, app s)")
  with manualRefreshStart_frame [of "(hook s, app s)" numStr minValue f now]
  have "refreshFrame (hook s) h" by simp
  with ManualRefresh c show ?thesis by auto
next
  case ManualTimeout
  obtain h a where c: "manualRefreshEnd (hook s, app s) = (h, a)"
    by (cases "manualRefreshEnd (hook s, app s)")
  with manualRefreshEnd_frame [of "(hook s, app s)"]
  have "refreshFrame (hook s) h" by simp
  with ManualTimeout c show ?thesis by auto
next
  case (LoadMoreCall c)
  with assms(2) show ?thesis by blast
next
  case (LoadMoreFetched i f g now)
  with assms show ?thesis by (simp add: isLoadMoreFetched_def)
qed

lemma step_LoadMoreFetched_cases:
  "(\<not> i < length (inflight s) \<and> step numStr minValue (LoadMoreFetched i f g now) s = s) \<or>
   (i < length (inflight s) \<and>
    hook (step numStr minValue (LoadMoreFetched i f g now) s) =
      snd (loadMore_resume numStr minValue g now (snd (inflight s ! i))
             (f (fst (inflight s ! i)) (snd (inflight s ! i))) (hook s)) \<and>
    inflight (step numStr minValue (LoadMoreFetched i f g now) s) =
      take i (inflight s) @ drop (Suc i) (inflight s))"
proof (cases "i < length (inflight s)")
  case False
  then show ?thesis by simp
next
  case True
  obtain n h where
    "loadMore_resume numStr minValue g now (snd (inflight s ! i))
       (f (fst (inflight s ! i)) (snd (inflight s ! i))) (hook s) = (n, h)"
    by (cases "loadMore_resume numStr minValue g now (snd (inflight s ! i))
                 (f (fst (inflight s ! i)) (snd (inflight s ! i))) (hook s)")
  with True show ?thesis by (simp add: Let_def)
qed

lemma step_event_cases:
  obtains (refresh) "\<not> isLoadMoreFetched e" "\<forall>c. e \<noteq> LoadMoreCall c"
  | (call) c where "e = LoadMoreCall c"
  | (fetched) i f g now where "e = LoadMoreFetched i f g now"
  by (cases e) (simp_all add: isLoadMoreFetched_def)

lemma step_alerts_prefix:
  "prefix (alerts (store (hook s))) (alerts (store (hook (step numStr minValue e s))))"
proof (cases e rule: step_event_cases)
  case refresh
  with step_refresh_cases [of e numStr minValue s] show ?thesis
    by (auto simp: refreshFrame_def)
next
  case (call c)
  then show ?thesis by (cases c) (simp_all add: loadMore_begin_cases)
next
  case (fetched i f g now)
  from step_LoadMoreFetched_cases [of i s numStr minValue f g now] show ?thesis
  proof (elim disjE conjE)
    assume "step numStr minValue (LoadMoreFetched i f g now) s = s"
    with fetched show ?thesis by simp
  next
    assume "hook (step numStr minValue (LoadMoreFetched i f g now) s) =
      snd (loadMore_resume numStr minValue g now (snd (inflight s ! i))
             (f (fst (inflight s ! i)) (snd (inflight s ! i))) (hook s))"
    with fetched
      loadMore_resume_store [of "hook s" numStr minValue g now "snd (inflight s ! i)"
        "f (fst (inflight s ! i)) (snd (inflight s ! i))"]
    show ?thesis by simp
  qed
qed











section \<open>The snapshot\<close>

lemma insertBy_set: "set (insertBy cmp x ys) = insert x (set ys)"
  by (induction ys) auto

lemma insertBy_mset: "mset (insertBy cmp x ys) = add_mset x (mset ys)"
  by (induction ys) auto

lemma insertBy_sorted:
  "sorted_wrt (\<lambda>a b. alert_timestamp b \<le> alert_timestamp a) ys \<Longrightarrow>
   sorted_wrt (\<lambda>a b. alert_timestamp b \<le> alert_timestamp a) (insertBy byTimestampDesc x ys)"
  by (induction ys) (auto simp: insertBy_set byTimestampDesc_def)

lemma array_sort_sorted:
  "sorted_wrt (\<lambda>a b. alert_timestamp b \<le> alert_timestamp a) (array_sort byTimestampDesc xs)"
  unfolding array_sort_def by (induction xs) (simp_all add: insertBy_sorted)

lemma array_sort_mset: "mset (array_sort cmp xs) = mset xs"
  unfolding array_sort_def by (induction xs) (simp_all add: insertBy_mset)

lemma queryFn_data:
  "fst (queryFn numStr minValue fetch now st) = Inr d \<Longrightarrow>
   data_alerts d =
     array_sort byTimestampDesc
       (map_values (alerts (store (snd (queryFn numStr minValue fetch now st)))))"
  by (cases "fetch 500 0") (auto simp: queryFn_def Let_def split: prod.splits)

lemma exampleRefresh_value:
  "map alert_timestamp (data_alerts (projr (fst exampleRefresh))) = [30, 20, 10] \<and>
   isl (fst exampleRefresh) = False \<and> data_newCount (projr (fst exampleRefresh)) = 3"
  by (simp add: exampleRefresh_def queryFn_def threeWhalesUpstream_def initialHook_def
      whaleStore_def tradeToWhaleAlert_def exampleTrade_def or_string_def mergeAlert_def
      map_has_def map_values_def array_sort_def byTimestampDesc_def truthy_def
      example_products js_less_def)

section \<open>A successful refresh, as the component sees it\<close>

lemma queryFn_flag:
  "queryFn numStr minValue fetch now (st \<lparr> isManualRefresh := b \<rparr>) =
     (fst (queryFn numStr minValue fetch now st),
      (snd (queryFn numStr minValue fetch now st)) \<lparr> isManualRefresh := b \<rparr>)"
  by (cases "fetch 500 0") (simp_all add: queryFn_def Let_def split: prod.splits)

lemma autoRefreshEffect_flagged:
  "isManualRefresh st \<Longrightarrow> autoRefreshEffect onAutoRefresh st a = a"
  by (simp add: autoRefreshEffect_def split: option.splits)

lemma autoRefreshEffect_zero:
  "query_data st = Some d \<Longrightarrow> data_newCount d = 0 \<Longrightarrow>
   autoRefreshEffect (Some handleAutoRefresh) st a = a"
  by (simp add: autoRefreshEffect_def handleAutoRefresh_def)

lemma query_fetch_success:
  "fst (queryFn numStr minValue fetch now st) = Inr d \<Longrightarrow>
   query_fetch numStr minValue fetch now st =
     (Inr d, (snd (queryFn numStr minValue fetch now st))
               \<lparr> query_data := Some d, query_error := None \<rparr>)"
  by (cases "queryFn numStr minValue fetch now st") (simp add: query_fetch_def)

lemma handleRefresh_success:
  assumes "fst (queryFn numStr minValue fetch now st) = Inr d"
  shows "handleRefresh numStr minValue fetch now (st, a) =
     ((snd (queryFn numStr minValue fetch now st))
        \<lparr> isManualRefresh := True, query_data := Some d, query_error := None \<rparr>,
      (if data_newCount d > 0
       then showToast (''Found '' @ natToString (data_newCount d) @ '' new whale trade'' @
                       plural (data_newCount d) @ ''!'') success (a \<lparr> isRefreshing := True \<rparr>)
       else showToast ''No new trades yet'' info (a \<lparr> isRefreshing := True \<rparr>))
        \<lparr> isRefreshing := False \<rparr>)"
proof -
  let ?flagged = "st \<lparr> isManualRefresh := True \<rparr>"
  from assms have "fst (queryFn numStr minValue fetch now ?flagged) = Inr d"
    by (simp add: queryFn_flag)
  then have "query_fetch numStr minValue fetch now ?flagged =
     (Inr d, (snd (queryFn numStr minValue fetch now st))
               \<lparr> isManualRefresh := True, query_data := Some d, query_error := None \<rparr>)"
    by (simp add: query_fetch_success queryFn_flag)
  then show ?thesis
    by (simp add: handleRefresh_def refetch_def query_refetch_def Let_def)
qed

lemma refetch_resolves: "\<not> isl (fst (refetch numStr minValue fetch now st))"
  by (cases "query_fetch numStr minValue fetch now (st \<lparr> isManualRefresh := True \<rparr>)")
     (auto simp: refetch_def query_refetch_def Let_def split: sum.splits)

section \<open>The claims\<close>

text \<open>
  C1, as amended. For every raw trade and every threshold, \<open>tradeToWhaleAlert\<close> returns
  nothing when the double-precision product of size and price (size times price, rounded
  to the nearest double) is below the threshold, and otherwise returns an alert whose value
  field is that product. Whenever size times price is itself a double, this is the exact
  product. The function takes no state and returns none: it is pure.
\<close>

theorem tradeToWhaleAlert_threshold:
  "(js_less (js_mul (trade_size trade) (trade_price trade)) minValue \<longrightarrow>
      tradeToWhaleAlert numStr trade minValue = None) \<and>
   (\<not> js_less (js_mul (trade_size trade) (trade_price trade)) minValue \<longrightarrow>
      (\<exists>alert. tradeToWhaleAlert numStr trade minValue = Some alert \<and>
         alert_value alert = js_mul (trade_size trade) (trade_price trade))) \<and>
   (round_double (trade_size trade * trade_price trade) =
      Finite (trade_size trade * trade_price trade) \<longrightarrow>
      (trade_size trade * trade_price trade < minValue \<longrightarrow>
         tradeToWhaleAlert numStr trade minValue = None) \<and>
      (\<not> trade_size trade * trade_price trade < minValue \<longrightarrow>
         (\<exists>alert. tradeToWhaleAlert numStr trade minValue = Some alert \<and>
            alert_value alert = Finite (trade_size trade * trade_price trade))))"
  by (simp add: tradeToWhaleAlert_def Let_def js_mul_def js_less_def)

theorem tradeToWhaleAlert_threshold_witness:
  "js_less (js_mul 100 5) 1000 \<and>
   round_double (100 * 5) = Finite (100 * 5) \<and>
   tradeToWhaleAlert numberToString (exampleTrade 10 100 5 None) 1000 = None \<and>
   round_double (6 / 10) = Finite (trade_price specTrade) \<and>
   \<not> js_less (js_mul (trade_size specTrade) (trade_price specTrade)) 1000 \<and>
   (\<exists>alert. tradeToWhaleAlert numberToString specTrade 1000 = Some alert \<and>
      alert_value alert = Finite 1200)"
proof -
  have small: "js_less (js_mul 100 5) 1000" and exact: "round_double (100 * 5) = Finite (100 * 5)"
    using example_products(4) by (simp_all add: js_less_def js_mul_def)
  have price: "round_double (6 / 10) = Finite (trade_price specTrade)"
    by (simp add: specTrade_def exampleTrade_def double_eval)
  have product: "js_mul (trade_size specTrade) (trade_price specTrade) = Finite 1200"
    by (simp add: specTrade_def exampleTrade_def example_rounded_products)
  then have large: "\<not> js_less (js_mul (trade_size specTrade) (trade_price specTrade)) 1000"
    by (simp add: js_less_def)
  from small tradeToWhaleAlert_threshold [of "exampleTrade 10 100 5 None" 1000 numberToString]
  have "tradeToWhaleAlert numberToString (exampleTrade 10 100 5 None) 1000 = None"
    by (simp add: exampleTrade_def)
  moreover
  from large product tradeToWhaleAlert_threshold [of specTrade 1000 numberToString]
  have "\<exists>alert. tradeToWhaleAlert numberToString specTrade 1000 = Some alert \<and>
                 alert_value alert = Finite 1200"
    by simp
  ultimately show ?thesis using small exact price large by blast
qed

text \<open>
  C1, as stated, fails where the product rounds up to the threshold: the doubles
  5555.555555555556 and 0.18 have an exact product below 1000 and the double product 1000,
  and the trade is returned as an alert of value 1000.
\<close>

theorem tradeToWhaleAlert_exact_product_counterexample:
  "round_double (5555555555555556 / 1000000000000) = Finite (trade_size roundedUpTrade) \<and>
   round_double (18 / 100) = Finite (trade_price roundedUpTrade) \<and>
   trade_size roundedUpTrade * trade_price roundedUpTrade < 1000 \<and>
   map_option alert_value (tradeToWhaleAlert numberToString roundedUpTrade 1000) =
     Some (Finite 1000)"
proof -
  have "round_double (5555555555555556 / 1000000000000) = Finite (trade_size roundedUpTrade)"
    and "round_double (18 / 100) = Finite (trade_price roundedUpTrade)"
    by (simp_all add: roundedUpTrade_def exampleTrade_def double_eval)
  moreover have "trade_size roundedUpTrade * trade_price roundedUpTrade < 1000"
    by (simp add: roundedUpTrade_def exampleTrade_def)
  moreover have "map_option alert_value (tradeToWhaleAlert numberToString roundedUpTrade 1000) =
     Some (Finite 1000)"
    by (simp add: roundedUpTrade_def exampleTrade_def tradeToWhaleAlert_def
          example_rounded_products js_less_def)
  ultimately show ?thesis by blast
qed

text \<open>
  C2. Merging an alert whose identifier is already a key of the store leaves the store and
  the counter as they are. Merging the same identifier twice grows the store by at most
  one entry, also when other trades are merged in between: the second merge changes
  nothing. No merge updates or removes an entry: the store after a merge, after a merge
  loop, and after any event of the application, is the store before with entries appended.
\<close>

theorem merge_idempotent_append_only:
  "(map_has m (alert_id a) \<longrightarrow> mergeAlert (m, c) (Some a) = (m, c)) \<and>
   (alert_id b = alert_id a \<longrightarrow>
      length (fst (mergeAlert (mergeAlert (m, c) (Some a)) (Some b))) \<le> length m + 1 \<and>
      (\<forall>trades. mergeAlert (mergeTrades numStr minValue trades (mergeAlert (m, c) (Some a)))
                  (Some b) =
                mergeTrades numStr minValue trades (mergeAlert (m, c) (Some a)))) \<and>
   prefix m (fst (mergeAlert (m, c) alert)) \<and>
   prefix m (fst (mergeTrades numStr minValue trades (m, c))) \<and>
   prefix (alerts (store (hook s))) (alerts (store (hook (step numStr minValue e s))))"
proof -
  let ?mc1 = "mergeAlert (m, c) (Some a)"
  have p1: "map_has (fst ?mc1) (alert_id a)" by (rule mergeAlert_present)
  have later: "mergeAlert (mergeTrades numStr minValue ts ?mc1) (Some b) =
               mergeTrades numStr minValue ts ?mc1" if "alert_id b = alert_id a" for ts
  proof -
    have "prefix (fst ?mc1) (fst (mergeTrades numStr minValue ts ?mc1))"
      by (rule mergeTrades_prefix)
    with p1 have "map_has (fst (mergeTrades numStr minValue ts ?mc1)) (alert_id a)"
      by (rule map_has_prefix [rotated])
    with that show ?thesis by (simp add: mergeAlert_noop)
  qed
  have twice: "length (fst (mergeAlert ?mc1 (Some b))) \<le> length m + 1" if "alert_id b = alert_id a"
  proof -
    from later [OF that, of "[]"] have "mergeAlert ?mc1 (Some b) = ?mc1" by simp
    moreover have "length (fst ?mc1) \<le> length m + 1"
      using mergeAlert_cases [of "(m, c)" "Some a"] by auto
    ultimately show ?thesis by simp
  qed
  have "prefix m (fst (mergeAlert (m, c) alert))"
    using mergeAlert_prefix [of "(m, c)" alert] by simp
  moreover have "prefix m (fst (mergeTrades numStr minValue trades (m, c)))"
    using mergeTrades_prefix [of "(m, c)" numStr minValue trades] by simp
  moreover note step_alerts_prefix [of s numStr minValue e]
  ultimately show ?thesis
    using later twice by (simp add: mergeAlert_noop)
qed

theorem merge_idempotent_append_only_witness:
  "map_has [(''0xa'', exampleAlert ''0xa'' 10)] (alert_id (exampleAlert ''0xa'' 10)) \<and>
   mergeAlert ([(''0xa'', exampleAlert ''0xa'' 10)], 1) (Some (exampleAlert ''0xa'' 10)) =
     ([(''0xa'', exampleAlert ''0xa'' 10)], 1) \<and>
   alert_id (exampleAlert ''0xa'' 20) = alert_id (exampleAlert ''0xa'' 10) \<and>
   length (fst (mergeAlert (mergeAlert ([], 0) (Some (exampleAlert ''0xa'' 10)))
                  (Some (exampleAlert ''0xa'' 20)))) \<le> 1"
  using merge_idempotent_append_only
          [of "[(''0xa'', exampleAlert ''0xa'' 10)]" "exampleAlert ''0xa'' 10" 1
              "exampleAlert ''0xa'' 10"]
        merge_idempotent_append_only
          [of "[]" "exampleAlert ''0xa'' 10" 0 "exampleAlert ''0xa'' 20"]
  by (simp add: map_has_def exampleAlert_def)

text \<open>
  C3. The alerts a refresh cycle returns are sorted by timestamp, newest first: of two
  alerts in the returned sequence, the earlier one has the greater or equal timestamp. The
  sequence holds exactly the alerts of the store after the merge.
\<close>

theorem snapshot_sorted_desc:
  "fst (queryFn numStr minValue fetch now st) = Inr d \<Longrightarrow>
   i < j \<Longrightarrow> j < length (data_alerts d) \<Longrightarrow>
   alert_timestamp (data_alerts d ! j) \<le> alert_timestamp (data_alerts d ! i) \<and>
   mset (data_alerts d) =
     mset (map_values (alerts (store (snd (queryFn numStr minValue fetch now st)))))"
proof -
  assume q: "fst (queryFn numStr minValue fetch now st) = Inr d" and ij: "i < j"
    and j: "j < length (data_alerts d)"
  let ?vs = "map_values (alerts (store (snd (queryFn numStr minValue fetch now st))))"
  from q have d: "data_alerts d = array_sort byTimestampDesc ?vs" by (rule queryFn_data)
  have "sorted_wrt (\<lambda>a b. alert_timestamp b \<le> alert_timestamp a) (data_alerts d)"
    unfolding d by (rule array_sort_sorted)
  with ij j have "alert_timestamp (data_alerts d ! j) \<le> alert_timestamp (data_alerts d ! i)"
    by (simp add: sorted_wrt_iff_nth_less)
  moreover have "mset (data_alerts d) = mset ?vs"
    unfolding d by (rule array_sort_mset)
  ultimately show ?thesis by simp
qed

theorem snapshot_sorted_desc_witness:
  "fst exampleRefresh = Inr (projr (fst exampleRefresh)) \<and>
   (0::nat) < 2 \<and> 2 < length (data_alerts (projr (fst exampleRefresh))) \<and>
   alert_timestamp (data_alerts (projr (fst exampleRefresh)) ! 2)
     \<le> alert_timestamp (data_alerts (projr (fst exampleRefresh)) ! 0)"
proof -
  define D where "D = projr (fst exampleRefresh)"
  have "map alert_timestamp (data_alerts D) = [30, 20, 10]" and l: "\<not> isl (fst exampleRefresh)"
    using exampleRefresh_value by (simp_all add: D_def)
  then have "length (map alert_timestamp (data_alerts D)) = 3" by simp
  then have n: "2 < length (data_alerts D)" by simp
  from l have q': "fst exampleRefresh = Inr D"
    unfolding D_def by (cases "fst exampleRefresh") simp_all
  then have q: "fst (queryFn numberToString 1000 threeWhalesUpstream 0 initialHook) = Inr D"
    unfolding exampleRefresh_def .
  have "(0::nat) < 2" by simp
  from snapshot_sorted_desc [OF q this n]
  have "alert_timestamp (data_alerts D ! 2) \<le> alert_timestamp (data_alerts D ! 0)" by blast
  with q' n show ?thesis unfolding D_def by simp
qed

text \<open>
  C4. A refresh cycle whose fetch fails is to be reported as an error to the caller of
  the manual-refresh entry point. The promise of \<open>refetch\<close> never rejects. At a failing
  fetch on a freshly mounted hook, \<open>refetch\<close> records the error in the query and resolves
  with the count 0, and \<open>handleRefresh\<close> shows the neutral notice of a cycle that found
  nothing, not the warning of its \<open>catch\<close> branch. After a cycle that found three whales,
  a failing manual refresh reports those three again.
\<close>

theorem refetch_swallows_fetch_error:
  "\<not> isl (fst (refetch numStr minValue fetch now st)) \<and>
   fst (refetch numberToString 1000 failingUpstream 7 initialHook) = Inr 0 \<and>
   query_error (snd (refetch numberToString 1000 failingUpstream 7 initialHook)) =
     Some TransportError \<and>
   toast (snd (handleRefresh numberToString 1000 failingUpstream 7 (initialHook, initialApp))) =
     Some \<lparr> toast_id = 1, toast_message = ''No new trades yet'', toast_type = info \<rparr> \<and>
   toast (snd (handleRefresh numberToString 1000 failingUpstream 8
                 (snd (query_fetch numberToString 1000 threeWhalesUpstream 7 initialHook),
                  initialApp))) =
     Some \<lparr> toast_id = 1, toast_message = ''Found 3 new whale trades!'',
            toast_type = success \<rparr>"
proof -
  have "fst (refetch numberToString 1000 failingUpstream 7 initialHook) = Inr 0 \<and>
        query_error (snd (refetch numberToString 1000 failingUpstream 7 initialHook)) =
          Some TransportError"
    by (simp add: refetch_def query_refetch_def query_fetch_def queryFn_def
          failingUpstream_def initialHook_def Let_def)
  moreover have "toast (snd (handleRefresh numberToString 1000 failingUpstream 7
                               (initialHook, initialApp))) =
     Some \<lparr> toast_id = 1, toast_message = ''No new trades yet'', toast_type = info \<rparr>"
    by (simp add: handleRefresh_def refetch_def query_refetch_def query_fetch_def queryFn_def
          failingUpstream_def initialHook_def initialApp_def showToast_def Let_def)
  moreover have "toast (snd (handleRefresh numberToString 1000 failingUpstream 8
                 (snd (query_fetch numberToString 1000 threeWhalesUpstream 7 initialHook),
                  initialApp))) =
     Some \<lparr> toast_id = 1, toast_message = ''Found 3 new whale trades!'',
            toast_type = success \<rparr>"
    by (simp add: handleRefresh_def refetch_def query_refetch_def query_fetch_def queryFn_def
          failingUpstream_def threeWhalesUpstream_def initialHook_def initialApp_def
          showToast_def Let_def whaleStore_def tradeToWhaleAlert_def exampleTrade_def
          or_string_def mergeAlert_def map_has_def map_values_def array_sort_def
          byTimestampDesc_def truthy_def natToString.simps plural_def example_products
          js_less_def)
  ultimately show ?thesis
    using refetch_resolves [of numStr minValue fetch now st] by simp
qed




text \<open>
  C6. When the fetch at offset \<open>oldestOffset + 500\<close> returns an empty page, \<open>loadMore\<close>
  returns 0 and leaves the store, cursor and alerts, as it was.
\<close>

theorem loadMore_empty_page:
  "fetch 500 (oldestOffset (store st) + 500) = Inr [] \<Longrightarrow>
   fst (loadMore numStr minValue fetch fetchOnInvalidate now st) = 0 \<and>
   store (snd (loadMore numStr minValue fetch fetchOnInvalidate now st)) = store st"
  by (simp add: loadMore_def loadMore_callback_def loadMore_begin_def loadMore_resume_def
          Let_def)

theorem loadMore_empty_page_witness:
  "emptyUpstream 500 (oldestOffset (store initialHook) + 500) = Inr [] \<and>
   fst (loadMore numberToString 1000 emptyUpstream threeWhalesUpstream 7 initialHook) = 0 \<and>
   store (snd (loadMore numberToString 1000 emptyUpstream threeWhalesUpstream 7 initialHook)) =
     whaleStore"
proof -
  have e: "emptyUpstream 500 (oldestOffset (store initialHook) + 500) = Inr []"
    by (simp add: emptyUpstream_def)
  from loadMore_empty_page
         [where fetch = emptyUpstream and st = initialHook and numStr = numberToString
            and minValue = 1000 and fetchOnInvalidate = threeWhalesUpstream and now = 7] e
  show ?thesis by (simp add: initialHook_def)
qed




text \<open>
  C8. A refresh cycle that completes with \<open>newCount = 0\<close> produces no notification when
  the timer or window focus started it (the component's state is unchanged), and exactly
  one when the button started it: the notification counter advances by one and the toast
  is the neutral "No new trades yet".
\<close>

theorem zero_count_notifications:
  assumes "fst (queryFn numStr minValue fetch now st) = Inr d" and "data_newCount d = 0"
  shows "snd (autoRefreshCycle numStr minValue fetch now (st, a)) = a \<and>
         toastIdRef (snd (manualRefreshCycle numStr minValue fetch now (st, a))) =
           toastIdRef a + 1 \<and>
         toast (snd (manualRefreshCycle numStr minValue fetch now (st, a))) =
           Some \<lparr> toast_id = toastIdRef a + 1, toast_message = ''No new trades yet'',
                  toast_type = info \<rparr>"
proof -
  let ?q = "snd (queryFn numStr minValue fetch now st)"
  have auto_silent: "snd (autoRefreshCycle numStr minValue fetch now (st, a)) = a"
    using assms
    by (simp add: autoRefreshCycle_def query_fetch_success afterRender_def autoRefreshEffect_zero
          Let_def)
  let ?a1 = "(showToast ''No new trades yet'' info (a \<lparr> isRefreshing := True \<rparr>))
               \<lparr> isRefreshing := False \<rparr>"
  let ?st1 = "?q \<lparr> isManualRefresh := True, query_data := Some d, query_error := None \<rparr>"
  have start: "manualRefreshStart numStr minValue fetch now (st, a) = (?st1, ?a1)"
    using assms
    by (simp add: manualRefreshStart_def Let_def afterRender_def autoRefreshEffect_flagged
          handleRefresh_success)
  have "manualRefreshEnd (?st1, ?a1) = (manualRefreshTimeout ?st1, ?a1)"
    using assms(2)
    by (simp add: manualRefreshEnd_def Let_def afterRender_def manualRefreshTimeout_def
          autoRefreshEffect_zero)
  with start have "snd (manualRefreshCycle numStr minValue fetch now (st, a)) = ?a1"
    by (simp add: manualRefreshCycle_def)
  with auto_silent show ?thesis
    by (simp add: showToast_def Let_def)
qed

theorem zero_count_notifications_witness:
  "fst (queryFn numberToString 1000 emptyUpstream 7 initialHook) =
     Inr \<lparr> data_alerts = [], data_newCount = 0, data_updatedAt = 7 \<rparr> \<and>
   data_newCount \<lparr> data_alerts = [], data_newCount = 0, data_updatedAt = 7 \<rparr> = 0 \<and>
   snd (autoRefreshCycle numberToString 1000 emptyUpstream 7 (initialHook, initialApp)) =
     initialApp \<and>
   toastIdRef (snd (manualRefreshCycle numberToString 1000 emptyUpstream 7
                      (initialHook, initialApp))) = 1 \<and>
   toast (snd (manualRefreshCycle numberToString 1000 emptyUpstream 7 (initialHook, initialApp))) =
     Some \<lparr> toast_id = 1, toast_message = ''No new trades yet'', toast_type = info \<rparr>"
proof -
  have q: "fst (queryFn numberToString 1000 emptyUpstream 7 initialHook) =
     Inr \<lparr> data_alerts = [], data_newCount = 0, data_updatedAt = 7 \<rparr>"
    by (simp add: queryFn_def emptyUpstream_def initialHook_def whaleStore_def map_values_def
          array_sort_def)
  have z: "data_newCount \<lparr> data_alerts = [], data_newCount = 0, data_updatedAt = 7 \<rparr> = 0"
    by simp
  from zero_count_notifications [OF q z, of initialApp] q show ?thesis
    by (simp add: initialApp_def)
qed

text \<open>
  C9, as amended. For every trade the classifier accepts, the identifier of the alert is
  the upstream transaction hash when that is present and not the empty string; when it is
  absent or empty, the identifier is the wallet, the timestamp, the market identifier and
  the size, joined by hyphens. Price and side do not enter the identifier.
\<close>

theorem alert_id_derivation:
  "tradeToWhaleAlert numStr trade minValue = Some alert \<Longrightarrow>
     (\<forall>h. trade_transactionHash trade = Some h \<and> h \<noteq> [] \<longrightarrow> alert_id alert = h) \<and>
     (trade_transactionHash trade = None \<or> trade_transactionHash trade = Some [] \<longrightarrow>
        alert_id alert =
          trade_proxyWallet trade @ ''-'' @ numStr (trade_timestamp trade) @ ''-'' @
          trade_conditionId trade @ ''-'' @ numStr (trade_size trade)) \<and>
     (\<forall>p s alert'.
        tradeToWhaleAlert numStr (trade \<lparr> trade_price := p, trade_side := s \<rparr>) minValue =
          Some alert' \<longrightarrow> alert_id alert' = alert_id alert)"
  by (auto simp: tradeToWhaleAlert_def Let_def or_string_def synthesizedId_def
           split: if_splits option.splits)

theorem alert_id_derivation_witness:
  "tradeToWhaleAlert numberToString (exampleTrade 10 2000 1 (Some ''0xa'')) 1000 \<noteq> None \<and>
   alert_id (the (tradeToWhaleAlert numberToString (exampleTrade 10 2000 1 (Some ''0xa'')) 1000)) = ''0xa'' \<and>
   tradeToWhaleAlert numberToString (exampleTrade 10 2000 1 None) 1000 \<noteq> None \<and>
   alert_id (the (tradeToWhaleAlert numberToString (exampleTrade 10 2000 1 None) 1000)) = ''0xabc-10-m1-2000''"
proof -
  obtain a where a: "tradeToWhaleAlert numberToString (exampleTrade 10 2000 1 (Some ''0xa'')) 1000 = Some a"
    by (simp add: tradeToWhaleAlert_def exampleTrade_def example_products js_less_def)
  obtain b where b: "tradeToWhaleAlert numberToString (exampleTrade 10 2000 1 None) 1000 = Some b"
    by (simp add: tradeToWhaleAlert_def exampleTrade_def example_products js_less_def)
  from alert_id_derivation [OF a] have "alert_id a = ''0xa''"
    by (simp add: exampleTrade_def)
  moreover from alert_id_derivation [OF b] have "alert_id b = ''0xabc-10-m1-2000''"
    by (simp add: exampleTrade_def example_strings)
  ultimately show ?thesis using a b by simp
qed

text \<open>
  C9, as stated, fails for a trade whose transaction hash is present but empty: the
  identifier is the synthesized one, not the hash.
\<close>

theorem alert_id_empty_hash_counterexample:
  "trade_transactionHash (exampleTrade 10 2000 1 (Some [])) = Some [] \<and>
   map_option alert_id (tradeToWhaleAlert numberToString (exampleTrade 10 2000 1 (Some [])) 1000) =
     Some ''0xabc-10-m1-2000''"
  by (simp add: tradeToWhaleAlert_def exampleTrade_def or_string_def synthesizedId_def
        example_products js_less_def example_strings)

text \<open>
  C10. When the page fetched by \<open>loadMore\<close> is not empty and each of its trades is below
  the threshold or already in the store, \<open>loadMore\<close> returns 0 and still advances the
  cursor by 500. The example is such an execution: a zero result does not mean that the
  page was empty, nor that the cursor stayed.
\<close>

theorem loadMore_zero_still_advances:
  assumes "\<not> isLoadingMore st"
    and "fetch 500 (oldestOffset (store st) + 500) = Inr page"
    and "page \<noteq> []"
    and "\<forall>t \<in> set page.
           tradeToWhaleAlert numStr t minValue = None \<or>
           (\<exists>a. tradeToWhaleAlert numStr t minValue = Some a \<and>
                map_has (alerts (store st)) (alert_id a))"
  shows "fst (loadMore numStr minValue fetch fetchOnInvalidate now st) = 0 \<and>
         oldestOffset (store (snd (loadMore numStr minValue fetch fetchOnInvalidate now st))) =
           oldestOffset (store st) + 500"
proof -
  let ?off = "oldestOffset (store st) + 500"
  from assms(4) have m: "mergeTrades numStr minValue page (alerts (store st), 0) =
                         (alerts (store st), 0)"
    using mergeTrades_nothing_new [of page numStr minValue "(alerts (store st), 0)"] by simp
  let ?st2 = "st \<lparr> isLoadingMore := True,
                   store := (store st) \<lparr> alerts := alerts (store st), oldestOffset := ?off \<rparr> \<rparr>"
  have "refreshFrame ?st2 (invalidateQueries numStr minValue fetchOnInvalidate now ?st2)"
    by (rule invalidateQueries_frame)
  then have "oldestOffset (store (invalidateQueries numStr minValue fetchOnInvalidate now ?st2)) = ?off"
    by (simp add: refreshFrame_def)
  with assms(1-3) m show ?thesis
    by (simp add: loadMore_def loadMore_callback_def loadMore_begin_def loadMore_resume_def
          Let_def)
qed

theorem loadMore_zero_still_advances_witness:
  "\<not> isLoadingMore initialHook \<and>
   smallTradeUpstream 500 (oldestOffset (store initialHook) + 500) =
     Inr [exampleTrade 10 100 5 None] \<and>
   tradeToWhaleAlert numberToString (exampleTrade 10 100 5 None) 1000 = None \<and>
   fst (loadMore numberToString 1000 smallTradeUpstream emptyUpstream 7 initialHook) = 0 \<and>
   oldestOffset (store (snd (loadMore numberToString 1000 smallTradeUpstream emptyUpstream 7
                               initialHook))) = 500"
proof -
  have g: "\<not> isLoadingMore initialHook" by (simp add: initialHook_def)
  have f: "smallTradeUpstream 500 (oldestOffset (store initialHook) + 500) =
           Inr [exampleTrade 10 100 5 None]"
    by (simp add: smallTradeUpstream_def)
  have n: "[exampleTrade 10 100 5 None] \<noteq> []" by simp
  have r: "tradeToWhaleAlert numberToString (exampleTrade 10 100 5 None) 1000 = None"
    by (simp add: tradeToWhaleAlert_def exampleTrade_def example_products js_less_def)
  then have a: "\<forall>t \<in> set [exampleTrade 10 100 5 None].
           tradeToWhaleAlert numberToString t 1000 = None \<or>
           (\<exists>a. tradeToWhaleAlert numberToString t 1000 = Some a \<and>
                map_has (alerts (store initialHook)) (alert_id a))"
    by simp
  from loadMore_zero_still_advances
         [where fetch = smallTradeUpstream and st = initialHook and numStr = numberToString
            and minValue = 1000 and fetchOnInvalidate = emptyUpstream and now = 7
            and page = "[exampleTrade 10 100 5 None]", OF g f n a] g f r
  show ?thesis by (simp add: initialHook_def whaleStore_def)
qed

end
